theory Spec2Isabelle
  imports Complex_Main "HOL-Library.Dlist"
begin

section \<open>Python values used by the dispatchers\<close>

text \<open>
  The monitor is written in Python. Its numbers are either unbounded integers or floats, and
  \<open>str\<close> prints the two differently (\<open>str(1024)\<close> is \<open>1024\<close>, \<open>str(1024.0)\<close> is
  \<open>1024.0\<close>), so the model keeps the tag. A float is abstracted by the exact rational it
  stands for: the rounding of binary64 arithmetic is not modelled, only the order, the
  quotient, \<open>round(x, 2)\<close> and the decimal printing of the result.
\<close>

datatype pynum = PyInt int | PyFloat rat

fun py_val :: "pynum \<Rightarrow> rat" where
  "py_val (PyInt i) = of_int i"
| "py_val (PyFloat q) = q"

datatype exn =
    PsutilNotFound string
  | DuplicateEntityError
  | ValueError string
  | ZeroDivisionError
  | StatisticsError

text \<open>
  \<open>PsutilNotFound c\<close> stands for an exception of class \<open>c\<close> that is listed in the tuple
  \<open>PSUTIL_NOTFOUND_ERRORS\<close> (the tuple itself is defined outside the files modelled here).
\<close>

subsection \<open>\<open>str\<close> of an integer\<close>

definition digit_char :: "nat \<Rightarrow> char" where
  "digit_char n = ''0123456789'' ! (n mod 10)"

fun str_nat :: "nat \<Rightarrow> string" where
  "str_nat n = (if n < 10 then [digit_char n] else str_nat (n div 10) @ [digit_char (n mod 10)])"

declare str_nat.simps [simp del]

definition str_int :: "int \<Rightarrow> string" where
  "str_int i = (if i < 0 then CHR ''-'' # str_nat (nat (- i)) else str_nat (nat i))"

subsection \<open>\<open>round(x, 2)\<close> and \<open>str\<close> of a float\<close>

text \<open>
  \<open>round(x, 2)\<close> leaves an integer as it is and rounds a float to the nearest multiple of
  \<open>0.01\<close>, a tie going to the even neighbour.
\<close>

definition round_half_even :: "rat \<Rightarrow> int" where
  "round_half_even q =
     (let f = \<lfloor>q\<rfloor>; d = q - of_int f
      in if d < 1 / 2 then f else if 1 / 2 < d then f + 1 else if even f then f else f + 1)"

fun py_round2 :: "pynum \<Rightarrow> pynum" where
  "py_round2 (PyInt i) = PyInt i"
| "py_round2 (PyFloat q) = PyFloat (of_int (round_half_even (q * 100)) / 100)"

text \<open>
  \<open>str\<close> of a float prints the integer part, a point and the decimal digits of the
  fraction, at least one and without trailing zeros. Seventeen digits bound the expansion
  (a binary64 value never prints more significant digits); exponent notation, which Python
  uses from \<open>1e16\<close> on and below \<open>1e-4\<close>, is not modelled.
\<close>

fun frac_digits :: "nat \<Rightarrow> rat \<Rightarrow> string" where
  "frac_digits 0 r = []"
| "frac_digits (Suc k) r =
     (if r = 0 then []
      else digit_char (nat \<lfloor>r * 10\<rfloor>) # frac_digits k (r * 10 - of_int \<lfloor>r * 10\<rfloor>))"

definition frac_part :: "rat \<Rightarrow> string" where
  "frac_part q =
     (let fd = frac_digits 17 (\<bar>q\<bar> - of_int \<lfloor>\<bar>q\<bar>\<rfloor>) in if fd = [] then ''0'' else fd)"

definition str_float :: "rat \<Rightarrow> string" where
  "str_float q =
     (if q < 0 then ''-'' else []) @ str_nat (nat \<lfloor>\<bar>q\<bar>\<rfloor>) @ ''.'' @ frac_part q"

fun py_str :: "pynum \<Rightarrow> string" where
  "py_str (PyInt i) = str_int i"
| "py_str (PyFloat q) = str_float q"

text \<open>
  Python's \<open>max(a, b)\<close> returns its first argument unless the second is strictly greater,
  whatever the tags of the two.
\<close>

definition py_max :: "pynum \<Rightarrow> pynum \<Rightarrow> pynum" where
  "py_max a b = (if py_val a < py_val b then b else a)"

text \<open>True division \<open>a / b\<close> of two numbers: a float, or \<open>ZeroDivisionError\<close>.\<close>

definition py_truediv :: "pynum \<Rightarrow> pynum \<Rightarrow> exn + pynum" where
  "py_truediv a b =
     (if py_val b = 0 then Inl ZeroDivisionError else Inr (PyFloat (py_val a / py_val b)))"

section \<open>\<open>_to_human_readable\<close>\<close>

definition dc_list_1024 :: "string list" where
  "dc_list_1024 = [''B'', ''KiB'', ''MiB'', ''GiB'', ''TiB'', ''PiB'', ''EiB'']"

definition dc_list_1000 :: "string list" where
  "dc_list_1000 = [''B'', ''KB'', ''MB'', ''GB'', ''TB'', ''PB'', ''EB'']"

text \<open>
  The loop \<open>while num > base and step < len(dc_list) - 1\<close>. It is entered with \<open>base\<close>
  equal to 1000 or 1024, so \<open>num /= base\<close> never divides by zero; the quotient is a float.
\<close>

function scale_loop :: "string list \<Rightarrow> int \<Rightarrow> pynum \<Rightarrow> nat \<Rightarrow> string \<Rightarrow> pynum \<times> string" where
  "scale_loop dc_list base num step dc =
     (if of_int base < py_val num \<and> int step < int (length dc_list) - 1
      then scale_loop dc_list base (PyFloat (py_val num / of_int base)) (step + 1)
             (dc_list ! (step + 1))
      else (num, dc))"
  by pat_completeness auto
termination
  by (relation "measure (\<lambda>(dc_list, base, num, step, dc). length dc_list - step)") auto

declare scale_loop.simps [simp del]

definition to_human_readable :: "int \<Rightarrow> int \<Rightarrow> exn + string" where
  "to_human_readable num base =
     (if base = 1024 then
        (case scale_loop dc_list_1024 base (PyInt num) 0 (dc_list_1024 ! 0) of
           (n, dc) \<Rightarrow> Inr (py_str (py_round2 n) @ dc))
      else if base = 1000 then
        (case scale_loop dc_list_1000 base (PyInt num) 0 (dc_list_1000 ! 0) of
           (n, dc) \<Rightarrow> Inr (py_str (py_round2 n) @ dc))
      else Inl (ValueError ''base should be 1000 or 1024''))"

section \<open>Shared state of the monitor\<close>

text \<open>
  A Dispatcher thread object is named by a reference. The \<open>world\<close> gathers what the
  Dispatchers share: the Entity Registry, the global \<open>_ALL_PIDS\<close>, the files written so
  far (name to content), the records sent to the loggers, and the Dispatcher threads that
  have been started.
\<close>

type_synonym ref = nat

record dispatcher =
  self_ref :: ref
  dispatchee :: string
  basename :: string
  trace_pid :: int
  loaded_tracers :: "string list"
  tracers_running :: bool
  child_dispatchers :: "ref list"
  should_exit :: bool
  cached_last_cpu_time :: pynum
  frontend_cache :: "string \<rightharpoonup> string"

record world =
  registry :: "int \<rightharpoonup> ref"
  ALL_PIDS :: "int set"
  files :: "string \<rightharpoonup> string"
  log_records :: "(string \<times> string) list"
  started_threads :: "dispatcher list"
  next_ref :: ref

definition log_msg :: "string \<Rightarrow> string \<Rightarrow> world \<Rightarrow> world" where
  "log_msg level msg w = w\<lparr>log_records := log_records w @ [(level, msg)]\<rparr>"

subsection \<open>The Entity Registry\<close>

text \<open>
  The module \<open>dispatcher_controller\<close> with the three operations on the registry is not
  among the files modelled here; the registry itself is the field \<open>registry\<close> of the
  \<open>world\<close>, a mapping from entity id to Dispatcher as the spec (3, 4.1) has it.
\<close>

text \<open>
  Modelled from the spec: \<open>register_dispatcher\<close> is missing. Spec 4.1 has
  \<open>register(id, dispatcher)\<close> add the entry and fail if \<open>id\<close> is already present.
\<close>

definition register_dispatcher :: "int \<Rightarrow> ref \<Rightarrow> world \<Rightarrow> (exn + unit) \<times> world" where
  "register_dispatcher pid r w =
     (if registry w pid \<noteq> None then (Inl DuplicateEntityError, w)
      else (Inr (), w\<lparr>registry := (registry w)(pid \<mapsto> r)\<rparr>))"

text \<open>
  Modelled from the spec: \<open>get_current_active_pids\<close> is missing. Spec 4.1 has
  \<open>activeIds()\<close> return the set of the ids that are present.
\<close>

definition get_current_active_pids :: "world \<Rightarrow> int set" where
  "get_current_active_pids w = dom (registry w)"

text \<open>
  Modelled from the spec: \<open>remove_dispatcher\<close> is missing. Spec 4.1 has \<open>unregister(id)\<close>
  remove the entry and do nothing if the id is absent.
\<close>

definition remove_dispatcher :: "int \<Rightarrow> world \<Rightarrow> world" where
  "remove_dispatcher pid w = w\<lparr>registry := (registry w)(pid := None)\<rparr>"

subsection \<open>What psutil answers\<close>

text \<open>
  Every call into psutil either returns or raises. \<open>proc\<close> holds the answers of one
  \<open>psutil.Process\<close> object to the calls the constructor makes; \<open>os_view\<close> holds what
  \<open>psutil.Process(pid)\<close> gives for each pid, and the result of \<open>get_timestamp()\<close>.
\<close>

record proc =
  p_name :: "exn + string"
  p_ppid :: "exn + int"
  p_cmdline :: "exn + string list"
  p_exe :: "exn + string"
  p_cwd :: "exn + string"
  p_environ :: "exn + (string \<times> string) list"
  p_memory_maps :: "exn + (string \<times> int \<times> int \<times> int) list"

record os_view =
  os_process :: "int \<Rightarrow> exn + proc"
  os_timestamp :: string

definition TAB :: string where
  "TAB = [CHR 0x09]"

definition NL :: string where
  "NL = [CHR 0x0A]"

fun join :: "string \<Rightarrow> string list \<Rightarrow> string" where
  "join sep [] = []"
| "join sep [x] = x"
| "join sep (x # y # ys) = x @ sep @ join sep (y # ys)"

text \<open>
  The handler \<open>except PSUTIL_NOTFOUND_ERRORS as e: self.log_handler.error(...); raise e\<close>:
  an exception of the tuple is logged with the pid of the Dispatcher that runs the handler;
  any other exception passes the handler untouched. Both leave the function.
\<close>

definition tracee_error :: "int \<Rightarrow> exn \<Rightarrow> world \<Rightarrow> world" where
  "tracee_error pid e w =
     (case e of
        PsutilNotFound c \<Rightarrow>
          log_msg ''ERROR'' (''TRACEE='' @ str_int pid @ '': '' @ c @ '' encountered!'') w
      | _ \<Rightarrow> w)"

section \<open>\<open>ProcessTracerDispatcherThread\<close>\<close>

definition default_loaded_tracers :: "string list" where
  "default_loaded_tracers =
     [''ProcessIOTracerThread'', ''ProcessFDTracerThread'', ''ProcessMEMTracerThread'',
      ''ProcessChildTracerThread'', ''ProcessCPUTracerThread'', ''ProcessSTATTracerThread'',
      ''ProcessSyscallTracerThread'']"

text \<open>
  Modelled from the spec: the constructor of the base class \<open>BaseTracerDispatcherThread\<close>
  is missing. By spec 3 a Dispatcher owns an entity id, an output basename, a Poller Pool
  and a termination flag; the constructor gives a fresh object with the dispatchee's name
  and the basename, an empty pool that is not running and the flag unset. The record has
  every field from the start: \<open>trace_pid\<close> holds the pid the subclass assigns later, the
  cache fields hold what \<open>_setup_cache\<close> will overwrite.
\<close>

definition base_init :: "ref \<Rightarrow> string \<Rightarrow> string \<Rightarrow> int \<Rightarrow> dispatcher" where
  "base_init r name bn pid =
     \<lparr>self_ref = r, dispatchee = name, basename = bn, trace_pid = pid, loaded_tracers = [],
      tracers_running = False, child_dispatchers = [], should_exit = False,
      cached_last_cpu_time = PyInt 0, frontend_cache = Map.empty\<rparr>"

text \<open>
  Modelled from the spec: \<open>start_tracers\<close> of the base class is missing. Spec 4.2
  (\<open>INITIALIZING\<close>) has it start the Dispatcher's Poller Pool.
\<close>

definition start_tracers :: "dispatcher \<Rightarrow> dispatcher" where
  "start_tracers d = d\<lparr>tracers_running := True\<rparr>"

text \<open>
  Modelled from the spec: \<open>append_threadpool\<close> of the base class is missing. It puts the
  child Dispatcher that \<open>CHILD_SCAN\<close> has started (spec 4.2) into the parent's pool.
\<close>

definition append_threadpool :: "dispatcher \<Rightarrow> dispatcher \<Rightarrow> dispatcher" where
  "append_threadpool new_thread d =
     d\<lparr>child_dispatchers := child_dispatchers d @ [self_ref new_thread]\<rparr>"

text \<open>\<open>new_thread.start()\<close>: the thread joins the running ones.\<close>

definition start_thread :: "dispatcher \<Rightarrow> world \<Rightarrow> world" where
  "start_thread new_thread w = w\<lparr>started_threads := started_threads w @ [new_thread]\<rparr>"

subsection \<open>\<open>_setup_cache\<close>\<close>

definition setup_cache :: "proc \<Rightarrow> dispatcher \<Rightarrow> exn + dispatcher" where
  "setup_cache p d =
     (let t = PyInt 0;
          fc = [''PID'' \<mapsto> str_int (trace_pid d), ''PPID'' \<mapsto> ''NA'', ''NAME'' \<mapsto> ''NA'',
                ''CPU%'' \<mapsto> ''NA'', ''STAT'' \<mapsto> ''NA'', ''CPU_TIME'' \<mapsto> py_str t,
                ''RESIDENT_MEM'' \<mapsto> ''NA'', ''NUM_THREADS'' \<mapsto> ''NA'',
                ''NUM_CHILD_PROCESS'' \<mapsto> ''NA'']
      in case p_name p of
           Inl e \<Rightarrow> Inl e
         | Inr n \<Rightarrow>
             (case p_ppid p of
                Inl e \<Rightarrow> Inl e
              | Inr pp \<Rightarrow>
                  Inr (d\<lparr>cached_last_cpu_time := t,
                         frontend_cache := fc(''NAME'' \<mapsto> n, ''PPID'' \<mapsto> str_int pp)\<rparr>)))"

subsection \<open>\<open>_write_registry\<close>, \<open>_write_env\<close>, \<open>_write_mapfile\<close>\<close>

text \<open>
  \<open>open(..., mode='a')\<close> creates the file or keeps its content, \<open>mode='w'\<close> empties it;
  the psutil calls are made after the file is open, in the order of the source, and the
  first one that raises ends the function through the handler.
\<close>

definition file_content :: "world \<Rightarrow> string \<Rightarrow> string" where
  "file_content w fn = (case files w fn of None \<Rightarrow> [] | Some c \<Rightarrow> c)"

definition write_file :: "string \<Rightarrow> string \<Rightarrow> world \<Rightarrow> world" where
  "write_file fn c w = w\<lparr>files := (files w)(fn \<mapsto> c)\<rparr>"

definition write_registry :: "os_view \<Rightarrow> proc \<Rightarrow> dispatcher \<Rightarrow> world \<Rightarrow> (exn + unit) \<times> world" where
  "write_registry os p d w =
     (let fn = basename d @ ''.reg.tsv'';
          w1 = write_file fn (file_content w fn) w
      in case p_cmdline p of
           Inl e \<Rightarrow> (Inl e, tracee_error (trace_pid d) e w1)
         | Inr cl \<Rightarrow>
             (case p_exe p of
                Inl e \<Rightarrow> (Inl e, tracee_error (trace_pid d) e w1)
              | Inr ex \<Rightarrow>
                  (case p_cwd p of
                     Inl e \<Rightarrow> (Inl e, tracee_error (trace_pid d) e w1)
                   | Inr cw \<Rightarrow>
                       (Inr (),
                        write_file fn
                          (file_content w fn
                             @ join TAB [os_timestamp os, str_int (trace_pid d), join '' '' cl, ex, cw]
                             @ NL) w1))))"

definition write_env :: "proc \<Rightarrow> dispatcher \<Rightarrow> world \<Rightarrow> (exn + unit) \<times> world" where
  "write_env p d w =
     (let fn = basename d @ ''.'' @ str_int (trace_pid d) @ ''.env.tsv'';
          header = join TAB [''NAME'', ''VALUE''] @ NL
      in case p_environ p of
           Inl e \<Rightarrow> (Inl e, tracee_error (trace_pid d) e (write_file fn header w))
         | Inr env \<Rightarrow>
             (Inr (),
              write_file fn
                (header @ concat (map (\<lambda>(env_name, env_value). join TAB [env_name, env_value] @ NL) env))
                w))"

definition write_mapfile :: "proc \<Rightarrow> dispatcher \<Rightarrow> world \<Rightarrow> (exn + unit) \<times> world" where
  "write_mapfile p d w =
     (let fn = basename d @ ''.'' @ str_int (trace_pid d) @ ''.mapfile.tsv'';
          header = join TAB [''PATH'', ''RESIDENT'', ''VIRT'', ''SWAP''] @ NL
      in case p_memory_maps p of
           Inl e \<Rightarrow> (Inl e, tracee_error (trace_pid d) e (write_file fn header w))
         | Inr maps \<Rightarrow>
             (Inr (),
              write_file fn
                (header
                   @ concat (map (\<lambda>(path, rss, sz, swap).
                        join TAB [path, str_int rss, str_int sz, str_int swap] @ NL) maps))
                w))"

subsection \<open>\<open>__init__\<close>\<close>

text \<open>
  The constructor, statement by statement: the base constructor, \<open>register_dispatcher\<close>,
  the tracer names, then \<open>psutil.Process(trace_pid)\<close> and \<open>_setup_cache()\<close> under the
  handler, \<open>_ALL_PIDS.add\<close>, the three files, and \<open>start_tracers()\<close>. An exception leaves
  the constructor at once; what was done to the shared state before it stays done.
\<close>

definition init_dispatcher ::
  "os_view \<Rightarrow> int \<Rightarrow> string \<Rightarrow> string list option \<Rightarrow> world \<Rightarrow> (exn + dispatcher) \<times> world" where
  "init_dispatcher os pid bn lt w =
     (let d0 = base_init (next_ref w) (str_int pid) bn pid;
          w0 = w\<lparr>next_ref := Suc (next_ref w)\<rparr>
      in case register_dispatcher pid (self_ref d0) w0 of
           (Inl e, w1) \<Rightarrow> (Inl e, w1)
         | (Inr u, w1) \<Rightarrow>
             (let d1 = d0\<lparr>loaded_tracers :=
                         (case lt of None \<Rightarrow> default_loaded_tracers | Some l \<Rightarrow> l)\<rparr>
              in case (case os_process os pid of
                         Inl e \<Rightarrow> Inl e
                       | Inr p \<Rightarrow>
                           (case setup_cache p d1 of Inl e \<Rightarrow> Inl e | Inr d2 \<Rightarrow> Inr (p, d2))) of
                   Inl e \<Rightarrow> (Inl e, tracee_error pid e w1)
                 | Inr (p, d2) \<Rightarrow>
                     (let w2 = w1\<lparr>ALL_PIDS := insert pid (ALL_PIDS w1)\<rparr>
                      in case write_registry os p d2 w2 of
                           (Inl e, w3) \<Rightarrow> (Inl e, w3)
                         | (Inr u, w3) \<Rightarrow>
                             (case write_env p d2 w3 of
                                (Inl e, w4) \<Rightarrow> (Inl e, w4)
                              | (Inr u, w4) \<Rightarrow>
                                  (case write_mapfile p d2 w4 of
                                     (Inl e, w5) \<Rightarrow> (Inl e, w5)
                                   | (Inr u, w5) \<Rightarrow> (Inr (start_tracers d2), w5))))))"

subsection \<open>\<open>_detect_process\<close>\<close>

text \<open>
  The \<open>for\<close> loop over the children that \<open>self.process.children()\<close> returned: a child whose
  pid is not among the active pids gets a Dispatcher of its own, which is started and put
  into the parent's pool. An exception of the child's constructor leaves the loop.
\<close>

fun attach_children ::
  "os_view \<Rightarrow> int list \<Rightarrow> dispatcher \<Rightarrow> world \<Rightarrow> (exn + unit) \<times> dispatcher \<times> world" where
  "attach_children os [] d w = (Inr (), d, w)"
| "attach_children os (c # cs) d w =
     (if c \<notin> get_current_active_pids w then
        (let w1 = log_msg ''INFO'' (''Sub-process '' @ str_int c @ '' detected.'') w
         in case init_dispatcher os c (basename d) None w1 of
              (Inl e, w2) \<Rightarrow> (Inl e, d, w2)
            | (Inr new_thread, w2) \<Rightarrow>
                attach_children os cs (append_threadpool new_thread d) (start_thread new_thread w2))
      else attach_children os cs d w)"

text \<open>
  \<open>_detect_process\<close> wraps the enumeration and the loop in one \<open>try\<close>: whatever raises an
  exception of the tuple inside, it is logged under the parent's pid and raised again.
\<close>

definition detect_process ::
  "os_view \<Rightarrow> (exn + int list) \<Rightarrow> dispatcher \<Rightarrow> world \<Rightarrow> (exn + unit) \<times> dispatcher \<times> world" where
  "detect_process os children d w =
     (case children of
        Inl e \<Rightarrow> (Inl e, d, tracee_error (trace_pid d) e w)
      | Inr cs \<Rightarrow>
          (case attach_children os cs d w of
             (Inl e, d1, w1) \<Rightarrow> (Inl e, d1, tracee_error (trace_pid d) e w1)
           | (Inr u, d1, w1) \<Rightarrow> (Inr (), d1, w1)))"

subsection \<open>\<open>_update_cache\<close>\<close>

text \<open>
  \<open>_update_cache\<close> first evaluates \<open>get_total_cpu_time(self.process)\<close>, before it assigns
  anything, and then reads the cached values of the tracers in the pool. A \<open>probe\<close> holds
  what one pass reads when that call has returned its reading, and \<open>update_cache\<close> is the
  body of \<open>_update_cache\<close> with these values; the call as a whole, whose poll may raise
  instead, is \<open>call_update_cache\<close> below.
\<close>

record probe =
  total_cpu_time :: pynum
  cached_cpu_percent :: pynum
  cached_resident_mem :: int
  cached_thread_child_process_num :: "int \<times> int"
  cached_stat :: string

definition update_cache :: "probe \<Rightarrow> dispatcher \<Rightarrow> exn + dispatcher" where
  "update_cache pr d =
     (let t = py_max (cached_last_cpu_time d) (total_cpu_time pr)
      in case to_human_readable (cached_resident_mem pr) 1024 of
           Inl e \<Rightarrow> Inl e
         | Inr mem \<Rightarrow>
             Inr (d\<lparr>cached_last_cpu_time := t,
                    frontend_cache :=
                      (frontend_cache d)
                        (''CPU_TIME'' \<mapsto> py_str (py_round2 t),
                         ''CPU%'' \<mapsto> py_str (cached_cpu_percent pr),
                         ''RESIDENT_MEM'' \<mapsto> mem,
                         ''NUM_THREADS'' \<mapsto> str_int (fst (cached_thread_child_process_num pr)),
                         ''NUM_CHILD_PROCESS'' \<mapsto> str_int (snd (cached_thread_child_process_num pr)),
                         ''STAT'' \<mapsto> cached_stat pr)\<rparr>))"

text \<open>
  Modelled from the spec: \<open>get_total_cpu_time\<close> is missing. Spec 6 has every probe of the
  OS introspection collaborator return its value or fail with the entity-gone condition at
  any call, once the process has exited. The poll of one pass is therefore either the
  exception raised, which leaves \<open>_update_cache\<close> before anything is assigned, or the
  values read.
\<close>

definition call_update_cache :: "exn + probe \<Rightarrow> dispatcher \<Rightarrow> exn + dispatcher" where
  "call_update_cache poll d = (case poll of Inl e \<Rightarrow> Inl e | Inr pr \<Rightarrow> update_cache pr d)"

subsection \<open>\<open>before_ending\<close> and \<open>sigterm\<close>\<close>

definition cputime_file :: "dispatcher \<Rightarrow> string" where
  "cputime_file d = basename d @ ''.'' @ str_int (trace_pid d) @ ''.cputime''"

definition before_ending :: "dispatcher \<Rightarrow> world \<Rightarrow> world" where
  "before_ending d w =
     remove_dispatcher (trace_pid d)
       (write_file (cputime_file d) (py_str (cached_last_cpu_time d) @ NL) w)"

text \<open>
  Modelled from the spec: \<open>sigterm\<close> of the base class is missing. Spec 4.2
  (\<open>TERMINATING\<close>) has it stop the Poller Pool and then run the Dispatcher's own teardown,
  which is \<open>before_ending\<close>; the termination flag is set.
\<close>

definition sigterm :: "dispatcher \<Rightarrow> world \<Rightarrow> dispatcher \<times> world" where
  "sigterm d w = (d\<lparr>tracers_running := False, should_exit := True\<rparr>, before_ending d w)"

subsection \<open>\<open>run_body\<close>\<close>

text \<open>
  One pass of the \<open>while\<close> loop sees whether another thread has set \<open>should_exit\<close> in the
  meantime, the outcome of the poll in \<open>_update_cache\<close> (an exception, or the values read),
  the answer of \<open>self.process.children()\<close> and the answers of psutil for the children. The
  loop runs as long as the passes it is given; when they are used up and it has not left
  the loop, the Dispatcher is \<open>StillRunning\<close>. The call \<open>self._update_cache()\<close> stands
  before the \<open>try\<close>, which encloses \<open>_detect_process\<close> only: an exception of
  \<open>_update_cache\<close>, of whatever class, or one of \<open>_detect_process\<close> that is not in the
  tuple, leaves \<open>run_body\<close> at once, and the thread ends without \<open>sigterm\<close>.
\<close>

record cycle =
  c_exit_requested :: bool
  c_probe :: "exn + probe"
  c_children :: "exn + int list"
  c_os :: os_view

datatype ending = StillRunning | Terminated | Uncaught exn

fun run_body :: "cycle list \<Rightarrow> dispatcher \<Rightarrow> world \<Rightarrow> ending \<times> dispatcher \<times> world" where
  "run_body [] d w = (StillRunning, d, w)"
| "run_body (c # cs) d w =
     (let d0 = (if c_exit_requested c then d\<lparr>should_exit := True\<rparr> else d)
      in if should_exit d0 then
           (case sigterm d0 w of (d', w') \<Rightarrow> (Terminated, d', w'))
         else
           (case call_update_cache (c_probe c) d0 of
              Inl e \<Rightarrow> (Uncaught e, d0, w)
            | Inr d1 \<Rightarrow>
                (case detect_process (c_os c) (c_children c) d1 w of
                   (Inl (PsutilNotFound n), d2, w2) \<Rightarrow>
                     (case sigterm d2 w2 of (d', w') \<Rightarrow> (Terminated, d', w'))
                 | (Inl e, d2, w2) \<Rightarrow> (Uncaught e, d2, w2)
                 | (Inr u, d2, w2) \<Rightarrow> run_body cs d2 w2)))"

section \<open>\<open>SystemTracerDispatcherThread\<close>\<close>

definition sys_setup_cache :: "string \<rightharpoonup> string" where
  "sys_setup_cache =
     [''CPU%'' \<mapsto> ''NA'', ''VM_AVAIL'' \<mapsto> ''NA'', ''VM_TOTAL'' \<mapsto> ''NA'', ''VM_PERCENT'' \<mapsto> ''NA'',
      ''BUFFERED'' \<mapsto> ''NA'', ''SHARED'' \<mapsto> ''NA'', ''SWAP_AVAIL'' \<mapsto> ''NA'',
      ''SWAP_TOTAL'' \<mapsto> ''NA'', ''SWAP_PERCENT'' \<mapsto> ''NA'']"

text \<open>
  The cached values of the three system tracers: the per-core CPU percentages, the tuple
  \<open>mem_info\<close> (read at indices 0 to 3) and the tuple \<open>swap_info\<close> (read at indices 0 and 1).
\<close>

record sys_probe =
  sys_cpu_percent :: "rat list"
  vm_info :: "int \<times> int \<times> int \<times> int"
  swap_info :: "int \<times> int"

text \<open>\<open>statistics.mean\<close> raises \<open>StatisticsError\<close> on an empty list.\<close>

definition py_mean :: "rat list \<Rightarrow> exn + pynum" where
  "py_mean xs =
     (if xs = [] then Inl StatisticsError else Inr (PyFloat (sum_list xs / of_nat (length xs))))"

text \<open>
  The ratio entries \<open>VM_PERCENT\<close> and \<open>SWAP_PERCENT\<close>:
  \<open>str(round(a / b * 100, 2)) + "%"\<close> if \<open>b != 0\<close>, else \<open>"0.00%"\<close>.
\<close>

definition percent_of :: "int \<Rightarrow> int \<Rightarrow> exn + string" where
  "percent_of a b =
     (if b \<noteq> 0 then
        (case py_truediv (PyInt a) (PyInt b) of
           Inl e \<Rightarrow> Inl e
         | Inr q \<Rightarrow> Inr (py_str (py_round2 (PyFloat (py_val q * 100))) @ ''%''))
      else Inr ''0.00%'')"

text \<open>
  Statements in sequence: the first exception ends the function, as it does in Python.
\<close>

definition and_then :: "exn + 'a \<Rightarrow> ('a \<Rightarrow> exn + 'b) \<Rightarrow> exn + 'b" where
  "and_then r f = (case r of Inl e \<Rightarrow> Inl e | Inr x \<Rightarrow> f x)"

definition sys_update_cache :: "sys_probe \<Rightarrow> (string \<rightharpoonup> string) \<Rightarrow> exn + (string \<rightharpoonup> string)" where
  "sys_update_cache sp fc =
     (case vm_info sp of (m0, m1, m2, m3) \<Rightarrow>
     (case swap_info sp of (s0, s1) \<Rightarrow>
        and_then (py_mean (sys_cpu_percent sp)) (\<lambda>mean.
        and_then (to_human_readable m0 1024) (\<lambda>vm_avail.
        and_then (to_human_readable m1 1024) (\<lambda>vm_total.
        and_then (percent_of m0 m1) (\<lambda>vm_percent.
        and_then (to_human_readable m2 1024) (\<lambda>buffered.
        and_then (to_human_readable m3 1024) (\<lambda>shared.
        and_then (to_human_readable s0 1024) (\<lambda>swap_avail.
        and_then (to_human_readable s1 1024) (\<lambda>swap_total.
        and_then (percent_of s0 s1) (\<lambda>swap_percent.
          Inr (fc(''CPU%'' \<mapsto> py_str (py_round2 mean) @ ''%'',
                  ''VM_AVAIL'' \<mapsto> vm_avail, ''VM_TOTAL'' \<mapsto> vm_total,
                  ''VM_PERCENT'' \<mapsto> vm_percent,
                  ''BUFFERED'' \<mapsto> buffered, ''SHARED'' \<mapsto> shared,
                  ''SWAP_AVAIL'' \<mapsto> swap_avail, ''SWAP_TOTAL'' \<mapsto> swap_total,
                  ''SWAP_PERCENT'' \<mapsto> swap_percent)))))))))))))"

section \<open>Reports: \<open>report.py\<close>\<close>

text \<open>
  A Python \<open>set\<close> of pids is an object on the heap, named by a reference and shared between
  caller and callee. Its value is a duplicate-free list, the order being the one in which a
  \<open>for\<close> loop would run through it. The renderer is an external program: for a command
  line it gives an exit code and what it printed to \<open>stdout\<close> and \<open>stderr\<close>.
\<close>

record report_state =
  set_objects :: "ref \<Rightarrow> int dlist"
  report_files :: "string \<rightharpoonup> string"
  report_log :: "(string \<times> string) list"

type_synonym renderer = "string list \<Rightarrow> int \<times> string"

definition path_join :: "string \<Rightarrow> string \<Rightarrow> string" where
  "path_join a b = (if a = [] then b else if last a = CHR ''/'' then a @ b else a @ ''/'' @ b)"

definition log_filename :: "string \<Rightarrow> int \<Rightarrow> string" where
  "log_filename report_basename this_pid =
     (if this_pid = 0 then report_basename @ ''_report_system.log''
      else report_basename @ ''_report_'' @ str_int this_pid @ ''_.log'')"

definition report_args :: "string \<Rightarrow> string \<Rightarrow> int \<Rightarrow> string list" where
  "report_args r_file_dir report_basename this_pid =
     (if this_pid = 0 then
        [''Rscript'', path_join r_file_dir ''make_system_report.R'',
         ''--basename'', report_basename,
         ''--rmd'', path_join r_file_dir ''system_report.Rmd'']
      else
        [''Rscript'', path_join r_file_dir ''make_process_report.R'',
         ''--pid'', str_int this_pid,
         ''--basename'', report_basename,
         ''--rmd'', path_join r_file_dir ''process_report.Rmd''])"

definition report_log_msg :: "string \<Rightarrow> string \<Rightarrow> report_state \<Rightarrow> report_state" where
  "report_log_msg level msg st = st\<lparr>report_log := report_log st @ [(level, msg)]\<rparr>"

text \<open>
  \<open>_MakeIndividualReportThread.run\<close>: the log file is opened for writing, the renderer runs
  with its output sent there, and the file is removed again if and only if the renderer's
  exit code is 0.
\<close>

definition individual_report_run ::
  "renderer \<Rightarrow> string \<Rightarrow> string \<Rightarrow> int \<Rightarrow> report_state \<Rightarrow> report_state" where
  "individual_report_run render r_file_dir report_basename this_pid st =
     (let fn = log_filename report_basename this_pid;
          args = report_args r_file_dir report_basename this_pid;
          st1 = st\<lparr>report_files := (report_files st)(fn \<mapsto> [])\<rparr>;
          st2 = report_log_msg ''DEBUG'' (join '' '' args @ '' ADD'') st1;
          (retv, out) = render args;
          st3 = st2\<lparr>report_files := (report_files st2)(fn \<mapsto> out)\<rparr>
      in if retv = 0 then
           (report_log_msg ''DEBUG'' (join '' '' args @ '' FIN'') st3)
             \<lparr>report_files := (report_files st3)(fn := None)\<rparr>
         else report_log_msg ''ERROR'' (join '' '' args @ '' ERR'') st3)"

text \<open>
  Modelled from the spec: \<open>parallel_helper.ParallelJobQueue\<close> is missing. Spec 4.5 has
  the pool run every unit it was given, a unit's failure not touching the others, and
  \<open>join\<close> return once every unit has completed. The queue is the list of the pids whose
  job was appended; \<open>start\<close> and \<open>join\<close> together run each job to its end, one after the
  other.
\<close>

definition job_queue_run ::
  "renderer \<Rightarrow> string \<Rightarrow> string \<Rightarrow> int list \<Rightarrow> report_state \<Rightarrow> report_state" where
  "job_queue_run render r_file_dir report_basename queue st =
     foldl (\<lambda>s this_pid. individual_report_run render r_file_dir report_basename this_pid s) st queue"

text \<open>
  \<open>make_all_report\<close>: \<open>all_pids.add(0)\<close> changes the caller's set object, the \<open>for\<close> loop
  appends one job for each element of the set as it then is (\<open>submitted_jobs\<close>), and the
  queue is started and joined.
\<close>

definition submitted_jobs :: "ref \<Rightarrow> report_state \<Rightarrow> int list" where
  "submitted_jobs all_pids st = list_of_dlist (Dlist.insert 0 (set_objects st all_pids))"

definition make_all_report ::
  "renderer \<Rightarrow> string \<Rightarrow> ref \<Rightarrow> string \<Rightarrow> report_state \<Rightarrow> report_state" where
  "make_all_report render r_file_dir all_pids report_basename st =
     (let st1 = st\<lparr>set_objects := (set_objects st)(all_pids := Dlist.insert 0 (set_objects st all_pids))\<rparr>;
          queue = submitted_jobs all_pids st;
          st2 = job_queue_run render r_file_dir report_basename queue st1
      in report_log_msg ''INFO'' ''All finished'' st2)"


section \<open>A Dispatcher's life as a sequence of cache updates\<close>

text \<open>
  The successive calls of \<open>_update_cache\<close> that the loop of \<open>run_body\<close> makes, one for each
  reading, seen on their own.
\<close>

fun update_cycles :: "probe list \<Rightarrow> dispatcher \<Rightarrow> exn + dispatcher" where
  "update_cycles [] d = Inr d"
| "update_cycles (pr # prs) d =
     (case update_cache pr d of Inl e \<Rightarrow> Inl e | Inr d' \<Rightarrow> update_cycles prs d')"

section \<open>The shape of a percentage entry\<close>

text \<open>
  A decimal number with one or two digits after the point, an optional sign in front and
  the character \<open>%\<close> behind, such as \<open>50.0%\<close>, \<open>33.33%\<close> or \<open>0.00%\<close>.
\<close>

definition is_digit :: "char \<Rightarrow> bool" where
  "is_digit c \<longleftrightarrow> c \<in> set ''0123456789''"

definition percent_format :: "string \<Rightarrow> bool" where
  "percent_format s =
     (let body = (case s of [] \<Rightarrow> [] | c # cs \<Rightarrow> if c = CHR ''-'' then cs else s);
          ip = takeWhile is_digit body;
          rest = dropWhile is_digit body
      in ip \<noteq> [] \<and>
         (case rest of
            [] \<Rightarrow> False
          | p # fs \<Rightarrow>
              p = CHR ''.'' \<and>
              (length (takeWhile is_digit fs) = 1 \<or> length (takeWhile is_digit fs) = 2) \<and>
              dropWhile is_digit fs = ''%''))"

section \<open>Example inputs\<close>

text \<open>
  A parent process 1 under supervision, whose children are enumerated as 2 and 3; process 2
  has exited by the time its Dispatcher is constructed, process 3 is alive.
\<close>

definition gone :: "exn + proc" where
  "gone = Inl (PsutilNotFound ''NoSuchProcess'')"

definition live_proc :: proc where
  "live_proc =
     \<lparr>p_name = Inr ''sh'', p_ppid = Inr 1, p_cmdline = Inr [''sh'', ''-c''],
      p_exe = Inr ''/bin/sh'', p_cwd = Inr ''/'', p_environ = Inr [(''HOME'', ''/root'')],
      p_memory_maps = Inr [(''/bin/sh'', 1, 2, 0)]\<rparr>"

definition os_example :: os_view where
  "os_example =
     \<lparr>os_process = (\<lambda>pid. if pid = 2 then gone else Inr live_proc), os_timestamp = ''t0''\<rparr>"

definition world_example :: world where
  "world_example =
     \<lparr>registry = [1 \<mapsto> 0], ALL_PIDS = {1}, files = Map.empty, log_records = [],
      started_threads = [], next_ref = 1\<rparr>"

definition parent_example :: dispatcher where
  "parent_example =
     (base_init 0 ''1'' ''out'' 1)\<lparr>loaded_tracers := default_loaded_tracers, tracers_running := True\<rparr>"

definition probe_example :: probe where
  "probe_example =
     \<lparr>total_cpu_time = PyFloat (3 / 2), cached_cpu_percent = PyFloat (25 / 2),
      cached_resident_mem = 4096, cached_thread_child_process_num = (1, 2), cached_stat = ''S''\<rparr>"

definition cycle_example :: "int list \<Rightarrow> cycle" where
  "cycle_example children =
     \<lparr>c_exit_requested = False, c_probe = Inr probe_example, c_children = Inr children,
      c_os = os_example\<rparr>"

text \<open>
  A report run over the pids 7 and 9, where the renderer fails for pid 7. The set object
  passed to \<open>make_all_report\<close> has reference 0; reference 1 is another set.
\<close>

definition render_example :: renderer where
  "render_example args = (if ''7'' \<in> set args then (1, ''boom'') else (0, ''ok''))"

definition report_state_example :: report_state where
  "report_state_example =
     \<lparr>set_objects =
        (\<lambda>r. if r = 0 then Dlist.insert 7 (Dlist.insert 9 Dlist.empty) else Dlist.insert 5 Dlist.empty),
      report_files = Map.empty, report_log = []\<rparr>"

text \<open>
  Three successive readings of the CPU time, the second smaller than the first; a pass of
  the loop in which \<open>children()\<close> finds the process gone; a pass in which the poll of
  \<open>_update_cache\<close> already finds it gone; cached values of the system tracers with a swap
  total of 0.
\<close>

definition readings_example :: "probe list" where
  "readings_example =
     [probe_example, probe_example\<lparr>total_cpu_time := PyFloat (1 / 2)\<rparr>,
      probe_example\<lparr>total_cpu_time := PyFloat 2\<rparr>]"



definition sys_probe_example :: sys_probe where
  "sys_probe_example = \<lparr>sys_cpu_percent = [25 / 2, 50], vm_info = (1, 2, 3, 4), swap_info = (5, 0)\<rparr>"

section \<open>Facts about the printing of numbers\<close>

lemma active_pid_iff [code_unfold]:
  "pid \<in> get_current_active_pids w \<longleftrightarrow> registry w pid \<noteq> None"
  by (auto simp: get_current_active_pids_def)

lemma digit_cases: "(n::nat) < 10 \<Longrightarrow> n \<in> {0, 1, 2, 3, 4, 5, 6, 7, 8, 9}"
  by (simp add: insert_iff) arith

lemma digit_char_is_digit: "is_digit (digit_char n)"
proof -
  have "n mod 10 < 10" by simp
  from digit_cases [OF this] show ?thesis
    by (auto simp: digit_char_def is_digit_def)
qed


lemma digit_char_zero: "digit_char n = CHR ''0'' \<longleftrightarrow> n mod 10 = 0"
proof -
  have "n mod 10 < 10" by simp
  from digit_cases [OF this] show ?thesis
    by (auto simp: digit_char_def)
qed

lemma str_nat_digits: "\<forall>c \<in> set (str_nat n). is_digit c"
proof (induction n rule: str_nat.induct)
  case (1 n)
  show ?case
  proof (cases "n < 10")
    case True
    then show ?thesis by (simp add: str_nat.simps [of n] digit_char_is_digit)
  next
    case False
    with 1 show ?thesis by (simp add: str_nat.simps [of n] digit_char_is_digit)
  qed
qed

lemma str_nat_nonempty: "str_nat n \<noteq> []"
  by (simp add: str_nat.simps [of n])






section \<open>Byte scaling\<close>

text \<open>
  C2, as the code has it: \<open>_to_human_readable(0)\<close> is \<open>0B\<close>, \<open>_to_human_readable(999, 1000)\<close>
  is \<open>999B\<close>, and \<open>_to_human_readable(1024, 1024)\<close> is \<open>1024B\<close>: the loop divides only while
  the number is strictly greater than the base, so 1024 itself is not scaled. The first
  input that prints as \<open>1.0KiB\<close> is 1025.
\<close>

theorem to_human_readable_vectors:
  "to_human_readable 0 1024 = Inr ''0B'' \<and>
   to_human_readable 1024 1024 = Inr ''1024B'' \<and>
   to_human_readable 1025 1024 = Inr ''1.0KiB'' \<and>
   to_human_readable 999 1000 = Inr ''999B''"
  by code_simp

text \<open>
  C2 as the spec states it fails: the result for 1024 with base 1024 is not \<open>1.0KiB\<close>.
\<close>

theorem to_human_readable_1024_counterexample:
  "to_human_readable 1024 1024 \<noteq> Inr ''1.0KiB''"
  by code_simp

section \<open>Attaching children\<close>

text \<open>
  C3, evaluated where the code departs from it: the constructor is called for pid 2, which
  is not registered and whose process has exited. The constructor raises the not-found
  exception, and by then \<open>register_dispatcher\<close> has already run: the registry now maps
  pid 2 to the discarded Dispatcher object, although no thread was started for it and the
  pid was not added to \<open>_ALL_PIDS\<close>.
\<close>

theorem init_dispatcher_gone_keeps_registration:
  "(case init_dispatcher os_example 2 ''out'' None world_example of
      (Inl e, w') \<Rightarrow>
        e = PsutilNotFound ''NoSuchProcess'' \<and> registry world_example 2 = None \<and>
        registry w' 2 = Some 1 \<and> map trace_pid (started_threads w') = [] \<and> 2 \<notin> ALL_PIDS w'
    | (Inr d, w') \<Rightarrow> False)"
  by code_simp

text \<open>
  C4, evaluated where the code departs from it: the parent's scan finds the children 2 and
  3, and 2 has exited. \<open>_detect_process\<close> raises the child's exception again, child 3 is
  never looked at, and \<open>run_body\<close> leaves its loop: the parent Dispatcher terminates and
  removes itself from the registry although its own process is alive. With child 3 alone
  the same parent attaches it and keeps running.
\<close>

theorem child_gone_unwinds_parent_scan:
  "(case detect_process os_example (Inr [2, 3]) parent_example world_example of
      (r, d, w) \<Rightarrow>
        r = Inl (PsutilNotFound ''NoSuchProcess'') \<and> registry w 3 = None \<and>
        map trace_pid (started_threads w) = []) \<and>
   (case run_body [cycle_example [2, 3], cycle_example [3]] parent_example world_example of
      (e, d, w) \<Rightarrow> e = Terminated \<and> should_exit d \<and> registry w 1 = None \<and> registry w 3 = None) \<and>
   (case run_body [cycle_example [3], cycle_example [3]] parent_example world_example of
      (e, d, w) \<Rightarrow>
        e = StillRunning \<and> registry w 1 = Some 0 \<and> registry w 3 = Some 1 \<and>
        map trace_pid (started_threads w) = [3])"
  by code_simp

text \<open>
  C1, evaluated where the code departs from it: after the parent's scan has met the exited
  child 2, the registry holds an entry for pid 2 that points to a Dispatcher object which
  was never started and is in no pool, so nothing will ever remove the entry.
\<close>

theorem failed_attach_leaks_registry_entry:
  "(case run_body [cycle_example [2]] parent_example world_example of
      (e, d, w) \<Rightarrow>
        e = Terminated \<and> registry w 2 = Some 1 \<and> registry w 1 = None \<and>
        map self_ref (started_threads w) = [] \<and> child_dispatchers d = [])"
  by code_simp

section \<open>Reports\<close>


lemma individual_report_run_sets:
  "set_objects (individual_report_run render dir bn q st) = set_objects st"
  by (simp add: individual_report_run_def report_log_msg_def Let_def split: prod.splits)





lemma job_queue_run_sets: "set_objects (job_queue_run render dir bn qs st) = set_objects st"
  by (induction qs arbitrary: st) (simp_all add: job_queue_run_def individual_report_run_sets)







text \<open>
  C10: after \<open>make_all_report\<close> the set object the caller passed holds its former elements
  and 0, nothing else is added or removed, and no other set object is touched.
\<close>

theorem make_all_report_adds_sentinel:
  "set (list_of_dlist (set_objects (make_all_report render dir all_pids bn st) all_pids)) =
     insert 0 (set (list_of_dlist (set_objects st all_pids))) \<and>
   (\<forall>r. r \<noteq> all_pids \<longrightarrow> set_objects (make_all_report render dir all_pids bn st) r = set_objects st r)"
  by (simp add: make_all_report_def Let_def report_log_msg_def job_queue_run_sets)

text \<open>
  A run of C10's theorem: the caller's set \<open>{7, 9}\<close> becomes \<open>{0, 7, 9}\<close>, the other set
  object stays as it was.
\<close>

theorem make_all_report_adds_sentinel_witness:
  "set (list_of_dlist (set_objects (make_all_report render_example ''/R'' 0 ''out'' report_state_example) 0)) = {0, 7, 9} \<and>
   set (list_of_dlist (set_objects report_state_example 0)) = {7, 9} \<and>
   set_objects (make_all_report render_example ''/R'' 0 ''out'' report_state_example) 1 = set_objects report_state_example 1"
  using make_all_report_adds_sentinel [where render = render_example and dir = "''/R''" and all_pids = 0 and bn = "''out''"
      and st = report_state_example]
  by (auto simp: report_state_example_def)


section \<open>The loop of a process Dispatcher and the cached CPU time\<close>

lemma to_human_readable_1024_ok: "\<exists>s. to_human_readable n 1024 = Inr s"
  by (simp add: to_human_readable_def split: prod.splits)

lemma py_val_py_max: "py_val (py_max a b) = max (py_val a) (py_val b)"
  by (simp add: py_max_def max_def)

lemma update_cache_ok:
  "\<exists>d'. update_cache pr d = Inr d' \<and>
     cached_last_cpu_time d' = py_max (cached_last_cpu_time d) (total_cpu_time pr) \<and>
     basename d' = basename d \<and> trace_pid d' = trace_pid d \<and> should_exit d' = should_exit d \<and>
     frontend_cache d' ''CPU%'' = Some (py_str (cached_cpu_percent pr))"
proof -
  obtain s where "to_human_readable (cached_resident_mem pr) 1024 = Inr s"
    using to_human_readable_1024_ok by blast
  then show ?thesis by (simp add: update_cache_def Let_def)
qed

lemma Max_insert_max:
  "finite S \<Longrightarrow> Max (insert (max a r) S) = Max (insert a (insert (r::rat) S))"
  by (cases "S = {}") (simp_all add: max.assoc)

lemma update_cycles_max:
  "\<exists>d'. update_cycles prs d = Inr d' \<and>
     py_val (cached_last_cpu_time d') =
       Max (insert (py_val (cached_last_cpu_time d)) (py_val ` total_cpu_time ` set prs)) \<and>
     basename d' = basename d \<and> trace_pid d' = trace_pid d"
proof (induction prs arbitrary: d)
  case Nil
  show ?case by simp
next
  case (Cons pr prs)
  obtain d1 where d1: "update_cache pr d = Inr d1"
    and c1: "cached_last_cpu_time d1 = py_max (cached_last_cpu_time d) (total_cpu_time pr)"
    and b1: "basename d1 = basename d" "trace_pid d1 = trace_pid d"
    using update_cache_ok [of pr d] by blast
  from Cons.IH [of d1] obtain d' where d': "update_cycles prs d1 = Inr d'"
    and m: "py_val (cached_last_cpu_time d') =
       Max (insert (py_val (cached_last_cpu_time d1)) (py_val ` total_cpu_time ` set prs))"
    and b': "basename d' = basename d1" "trace_pid d' = trace_pid d1"
    by blast
  have "Max (insert (py_val (cached_last_cpu_time d1)) (py_val ` total_cpu_time ` set prs)) =
        Max (insert (py_val (cached_last_cpu_time d))
              (insert (py_val (total_cpu_time pr)) (py_val ` total_cpu_time ` set prs)))"
    by (simp add: c1 py_val_py_max Max_insert_max)
  with d1 d' m b1 b' show ?case by simp
qed

lemma before_ending_file:
  "files (before_ending d w) (cputime_file d) = Some (py_str (cached_last_cpu_time d) @ NL)"
  by (simp add: before_ending_def remove_dispatcher_def write_file_def)

lemma before_ending_registry:
  "trace_pid d \<notin> get_current_active_pids (before_ending d w)"
  by (simp add: before_ending_def remove_dispatcher_def write_file_def get_current_active_pids_def)

lemma setup_cache_zero: "setup_cache p d0 = Inr d \<Longrightarrow> cached_last_cpu_time d = PyInt 0"
  by (auto simp: setup_cache_def Let_def split: sum.splits)

lemma attach_children_frame:
  "attach_children os cs d w = (r, d', w') \<Longrightarrow>
   cached_last_cpu_time d' = cached_last_cpu_time d \<and> basename d' = basename d \<and>
   trace_pid d' = trace_pid d \<and> should_exit d' = should_exit d"
proof (induction cs arbitrary: d w)
  case Nil
  then show ?case by simp
next
  case (Cons c cs)
  show ?case
  proof (cases "c \<notin> get_current_active_pids w")
    case False
    with Cons.prems have "attach_children os cs d w = (r, d', w')" by simp
    from Cons.IH [OF this] show ?thesis .
  next
    case True
    let ?w1 = "log_msg ''INFO'' (''Sub-process '' @ str_int c @ '' detected.'') w"
    obtain res w2 where i: "init_dispatcher os c (basename d) None ?w1 = (res, w2)"
      by (cases "init_dispatcher os c (basename d) None ?w1")
    show ?thesis
    proof (cases res)
      case (Inl e)
      with True i Cons.prems show ?thesis by simp
    next
      case (Inr nt)
      with True i Cons.prems
      have "attach_children os cs (append_threadpool nt d) (start_thread nt w2) = (r, d', w')"
        by simp
      from Cons.IH [OF this] show ?thesis by (simp add: append_threadpool_def)
    qed
  qed
qed

lemma detect_process_frame:
  "detect_process os ch d w = (r, d', w') \<Longrightarrow>
   cached_last_cpu_time d' = cached_last_cpu_time d \<and> basename d' = basename d \<and>
   trace_pid d' = trace_pid d \<and> should_exit d' = should_exit d"
proof (cases ch)
  case (Inl e)
  assume "detect_process os ch d w = (r, d', w')"
  with Inl show ?thesis by (auto simp: detect_process_def)
next
  case (Inr cs)
  assume h: "detect_process os ch d w = (r, d', w')"
  obtain r1 d1 w1 where a: "attach_children os cs d w = (r1, d1, w1)"
    by (cases "attach_children os cs d w")
  from h Inr a have "d' = d1" by (auto simp: detect_process_def split: sum.splits)
  with attach_children_frame [OF a] show ?thesis by simp
qed

lemma py_max_ge: "py_val a \<le> py_val (py_max a b)"
  by (simp add: py_max_def)

lemma run_body_teardown:
  "run_body cs d w = (e, d', w') \<Longrightarrow>
   py_val (cached_last_cpu_time d) \<le> py_val (cached_last_cpu_time d') \<and>
   basename d' = basename d \<and> trace_pid d' = trace_pid d \<and>
   (e = Terminated \<longrightarrow>
      files w' (cputime_file d) = Some (py_str (cached_last_cpu_time d') @ NL) \<and>
      trace_pid d \<notin> get_current_active_pids w' \<and> should_exit d')"
proof (induction cs arbitrary: d w)
  case Nil
  then show ?case by simp
next
  case (Cons c cs)
  define d0 where "d0 = (if c_exit_requested c then d\<lparr>should_exit := True\<rparr> else d)"
  have d0: "cached_last_cpu_time d0 = cached_last_cpu_time d" "basename d0 = basename d"
    "trace_pid d0 = trace_pid d"
    by (simp_all add: d0_def)
  then have f0: "cputime_file d0 = cputime_file d" by (simp add: cputime_file_def)
  show ?case
  proof (cases "should_exit d0")
    case True
    with Cons.prems have "e = Terminated" "d' = d0\<lparr>tracers_running := False, should_exit := True\<rparr>"
      "w' = before_ending d0 w"
      by (simp_all add: d0_def [symmetric] sigterm_def)
    with d0 f0 before_ending_file [of d0 w] before_ending_registry [of d0 w]
    show ?thesis by simp
  next
    case ne: False
    show ?thesis
    proof (cases "c_probe c")
      case (Inl x)
      with Cons.prems ne have "e = Uncaught x" "d' = d0"
        by (simp_all add: d0_def [symmetric] call_update_cache_def)
      with d0 show ?thesis by simp
    next
      case (Inr pr)
      note False = ne
      obtain d1 where up: "call_update_cache (c_probe c) d0 = Inr d1"
        and c1: "cached_last_cpu_time d1 = py_max (cached_last_cpu_time d0) (total_cpu_time pr)"
        and b1: "basename d1 = basename d0" "trace_pid d1 = trace_pid d0"
        using update_cache_ok [of pr d0] Inr by (auto simp: call_update_cache_def)
      obtain r d2 w2 where dp: "detect_process (c_os c) (c_children c) d1 w = (r, d2, w2)"
        by (cases "detect_process (c_os c) (c_children c) d1 w")
      from detect_process_frame [OF dp]
      have c2: "cached_last_cpu_time d2 = cached_last_cpu_time d1"
        and b2: "basename d2 = basename d1" "trace_pid d2 = trace_pid d1"
        by simp_all
      have le2: "py_val (cached_last_cpu_time d) \<le> py_val (cached_last_cpu_time d2)"
        using py_max_ge [of "cached_last_cpu_time d0" "total_cpu_time pr"] c1 c2 d0 by simp
      from b1 b2 d0 have f2: "cputime_file d2 = cputime_file d" by (simp add: cputime_file_def)
      show ?thesis
      proof (cases r)
        case (Inr u)
        with Cons.prems False up dp have "run_body cs d2 w2 = (e, d', w')"
          by (simp add: d0_def [symmetric])
        from Cons.IH [OF this] le2 f2 b1 b2 d0 show ?thesis by simp
      next
        case (Inl x)
        show ?thesis
        proof (cases "\<exists>n. x = PsutilNotFound n")
          case True
          with Inl Cons.prems False up dp
          have "e = Terminated" "d' = d2\<lparr>tracers_running := False, should_exit := True\<rparr>"
            "w' = before_ending d2 w2"
            by (auto simp: d0_def [symmetric] sigterm_def)
          with le2 f2 b1 b2 d0 before_ending_file [of d2 w2] before_ending_registry [of d2 w2]
          show ?thesis by simp
        next
          case nf: False
          with Inl Cons.prems False up dp have "e = Uncaught x" "d' = d2"
            by (cases x; simp add: d0_def [symmetric])+
          with le2 b1 b2 d0 show ?thesis by simp
        qed
      qed
    qed
  qed
qed

text \<open>
  C5, as the code has it: \<open>_setup_cache\<close> starts the cached CPU time at 0, and every
  \<open>_update_cache\<close> replaces it by the greater of itself and the new reading. After any
  sequence of readings the cached value is therefore the maximum of 0 and all readings so
  far, after every prefix of the sequence likewise, so it never decreases; \<open>before_ending\<close>
  writes the last cached value to the cputime file. However \<open>run_body\<close> goes on from a
  state reached in this way, the cached value does not fall below the one reached, and if
  the loop ends in the teardown, the cputime file holds the final cached value.
\<close>

theorem cpu_time_running_max:
  assumes "setup_cache p d0 = Inr d"
  shows "\<exists>d'. update_cycles prs d = Inr d' \<and>
           py_val (cached_last_cpu_time d') = Max (insert 0 (py_val ` total_cpu_time ` set prs)) \<and>
           (\<forall>k \<le> length prs. \<exists>dk. update_cycles (take k prs) d = Inr dk \<and>
              py_val (cached_last_cpu_time dk) = Max (insert 0 (py_val ` total_cpu_time ` set (take k prs))) \<and>
              py_val (cached_last_cpu_time dk) \<le> py_val (cached_last_cpu_time d')) \<and>
           files (before_ending d' w) (cputime_file d') = Some (py_str (cached_last_cpu_time d') @ NL) \<and>
           (\<forall>cs w1 e d'' w''. run_body cs d' w1 = (e, d'', w'') \<longrightarrow>
              py_val (cached_last_cpu_time d') \<le> py_val (cached_last_cpu_time d'') \<and>
              (e = Terminated \<longrightarrow>
                 files w'' (cputime_file d') = Some (py_str (cached_last_cpu_time d'') @ NL)))"
proof -
  from assms have z: "py_val (cached_last_cpu_time d) = 0"
    by (simp add: setup_cache_zero)
  obtain d' where d': "update_cycles prs d = Inr d'"
    and m: "py_val (cached_last_cpu_time d') = Max (insert 0 (py_val ` total_cpu_time ` set prs))"
    using update_cycles_max [of prs d] z by auto
  have pre: "\<exists>dk. update_cycles (take k prs) d = Inr dk \<and>
              py_val (cached_last_cpu_time dk) = Max (insert 0 (py_val ` total_cpu_time ` set (take k prs))) \<and>
              py_val (cached_last_cpu_time dk) \<le> py_val (cached_last_cpu_time d')" for k
  proof -
    obtain dk where dk: "update_cycles (take k prs) d = Inr dk"
      and mk: "py_val (cached_last_cpu_time dk) = Max (insert 0 (py_val ` total_cpu_time ` set (take k prs)))"
      using update_cycles_max [of "take k prs" d] z by auto
    have "insert 0 (py_val ` total_cpu_time ` set (take k prs)) \<subseteq> insert 0 (py_val ` total_cpu_time ` set prs)"
      using set_take_subset [of k prs] by blast
    then have "Max (insert 0 (py_val ` total_cpu_time ` set (take k prs))) \<le> Max (insert 0 (py_val ` total_cpu_time ` set prs))"
      by (intro Max_mono) simp_all
    with dk mk m show ?thesis by auto
  qed
  have rb: "py_val (cached_last_cpu_time d') \<le> py_val (cached_last_cpu_time d'') \<and>
      (e = Terminated \<longrightarrow>
         files w'' (cputime_file d') = Some (py_str (cached_last_cpu_time d'') @ NL))"
    if "run_body cs d' w1 = (e, d'', w'')" for cs w1 e d'' w''
    using run_body_teardown [OF that] by blast
  from d' m pre before_ending_file [of d' w] rb show ?thesis by blast
qed

text \<open>
  A run of C5's theorem: the readings 1.5, 0.5 and 2 leave the cached value at 2, and that
  value is what the teardown writes.
\<close>

theorem cpu_time_running_max_witness:
  "\<exists>d d'. setup_cache live_proc parent_example = Inr d \<and> update_cycles readings_example d = Inr d' \<and>
     py_val (cached_last_cpu_time d') = 2 \<and>
     files (before_ending d' world_example) (cputime_file d') = Some (py_str (cached_last_cpu_time d') @ NL)"
proof -
  obtain d where d: "setup_cache live_proc parent_example = Inr d"
    by (simp add: setup_cache_def live_proc_def)
  have "Max (insert 0 (py_val ` total_cpu_time ` set readings_example)) = 2"
    by (simp add: readings_example_def probe_example_def)
  with cpu_time_running_max [OF d, of readings_example world_example] d show ?thesis
    by auto
qed

text \<open>
  C5 as the spec states it fails for a reading below the starting value 0: after the single
  reading \<open>-1\<close> the cached value is 0, not the maximum \<open>-1\<close> of the readings.
\<close>

theorem cpu_time_running_max_counterexample:
  "(case setup_cache live_proc parent_example of
      Inl e \<Rightarrow> False
    | Inr d \<Rightarrow>
        (case update_cycles [probe_example\<lparr>total_cpu_time := PyFloat (- 1)\<rparr>] d of
           Inl e \<Rightarrow> False
         | Inr d' \<Rightarrow>
             py_val (cached_last_cpu_time d') = 0 \<and>
             Max (py_val ` total_cpu_time ` set [probe_example\<lparr>total_cpu_time := PyFloat (- 1)\<rparr>]) = - 1))"
  by (simp add: setup_cache_def live_proc_def parent_example_def base_init_def probe_example_def
      update_cache_def py_max_def Let_def to_human_readable_def split: prod.splits)

section \<open>Teardown on the entity-gone exit\<close>




section \<open>Ratios of the system cache\<close>

lemma frac_digits_digits: "\<forall>c \<in> set (frac_digits k r). is_digit c"
  by (induction k arbitrary: r) (simp_all add: digit_char_is_digit)

lemma frac_digits_zero: "frac_digits k 0 = []"
  by (cases k) simp_all

lemma first_digit_zero:
  fixes r :: rat
  assumes "0 \<le> r" "r < 1" "digit_char (nat \<lfloor>r * 10\<rfloor>) = CHR ''0''"
  shows "\<lfloor>r * 10\<rfloor> = 0"
proof -
  from assms(1) have lo: "0 \<le> \<lfloor>r * 10\<rfloor>" by simp
  from assms(2) have "r * 10 < 10" by simp
  then have hi: "\<lfloor>r * 10\<rfloor> < 10" by (simp add: floor_less_iff)
  from lo hi have "nat \<lfloor>r * 10\<rfloor> < 10" by linarith
  then have "nat \<lfloor>r * 10\<rfloor> mod 10 = nat \<lfloor>r * 10\<rfloor>" by (rule mod_less)
  moreover from assms(3) have "nat \<lfloor>r * 10\<rfloor> mod 10 = 0" unfolding digit_char_zero .
  ultimately have "nat \<lfloor>r * 10\<rfloor> = 0" by (simp only:)
  with lo show ?thesis by linarith
qed

lemma zero_digit_step:
  fixes r :: rat
  assumes "0 \<le> r" "r < 1" "frac_digits (Suc k) r = CHR ''0'' # cs"
  shows "r \<noteq> 0 \<and> r * 10 < 1 \<and> cs = frac_digits k (r * 10)"
proof -
  from assms(3) have r0: "r \<noteq> 0" by auto
  with assms(3) have d: "digit_char (nat \<lfloor>r * 10\<rfloor>) = CHR ''0''"
    and t: "cs = frac_digits k (r * 10 - of_int \<lfloor>r * 10\<rfloor>)"
    by simp_all
  from first_digit_zero [OF assms(1,2) d] have f: "\<lfloor>r * 10\<rfloor> = 0" .
  then have "r * 10 < 1" by (simp add: floor_eq_iff)
  with r0 t f show ?thesis by simp
qed

lemma frac_digits_Suc_Nil: "frac_digits (Suc k) r = [] \<longleftrightarrow> r = 0"
  by simp

lemma frac_digits_not_00:
  fixes r :: rat
  assumes "0 \<le> r" "r < 1"
  shows "frac_digits (Suc (Suc (Suc k))) r \<noteq> ''00''"
proof
  assume h: "frac_digits (Suc (Suc (Suc k))) r = ''00''"
  define r1 where "r1 = r * 10"
  from zero_digit_step [OF assms h]
  have r0: "r \<noteq> 0" and r1: "r1 < 1" and t1: "frac_digits (Suc (Suc k)) r1 = ''0''"
    by (simp_all add: r1_def)
  from assms(1) r0 have p1: "0 \<le> r1" "r1 \<noteq> 0" by (simp_all add: r1_def)
  from zero_digit_step [OF p1(1) r1 t1]
  have "[] = frac_digits (Suc k) (r1 * 10)" by blast
  then have "frac_digits (Suc k) (r1 * 10) = []" by (rule sym)
  then have "r1 * 10 = 0" unfolding frac_digits_Suc_Nil .
  with p1(2) show False by simp
qed

lemma append_eq_sep:
  "c \<notin> set xs \<Longrightarrow> c \<notin> set us \<Longrightarrow> xs @ c # ys = us @ c # vs \<Longrightarrow> xs = us \<and> ys = vs"
proof (induction xs arbitrary: us)
  case Nil
  then show ?case by (cases us) auto
next
  case (Cons x xs)
  then show ?case by (cases us) auto
qed

lemma dot_not_digit: "\<not> is_digit (CHR ''.'')" "\<not> is_digit (CHR ''%'')" "\<not> is_digit (CHR ''-'')"
  by (simp_all add: is_digit_def)

lemma str_nat_no_dot: "CHR ''.'' \<notin> set (str_nat n)"
  using str_nat_digits [of n] dot_not_digit by blast

lemma frac_part_not_00: "frac_part q \<noteq> ''00''"
proof -
  have r: "0 \<le> \<bar>q\<bar> - of_int \<lfloor>\<bar>q\<bar>\<rfloor>" "\<bar>q\<bar> - of_int \<lfloor>\<bar>q\<bar>\<rfloor> < 1"
    by linarith+
  have "(17::nat) = Suc (Suc (Suc 14))" by simp
  with frac_digits_not_00 [OF r, of 14]
  have "frac_digits 17 (\<bar>q\<bar> - of_int \<lfloor>\<bar>q\<bar>\<rfloor>) \<noteq> ''00''" by metis
  then show ?thesis by (simp add: frac_part_def Let_def)
qed

lemma str_float_not_000: "str_float q \<noteq> ''0.00''"
proof
  assume h: "str_float q = ''0.00''"
  show False
  proof (cases "q < 0")
    case True
    with h show False by (simp add: str_float_def)
  next
    case False
    with h have "str_nat (nat \<lfloor>\<bar>q\<bar>\<rfloor>) @ CHR ''.'' # frac_part q = ''0'' @ CHR ''.'' # ''00''"
      by (simp add: str_float_def)
    from append_eq_sep [OF str_nat_no_dot _ this] have "frac_part q = ''00''" by simp
    with frac_part_not_00 show False by blast
  qed
qed

lemma percent_of_ok:
  "percent_of a b =
     (if b \<noteq> 0 then Inr (py_str (py_round2 (PyFloat (of_int a / of_int b * 100))) @ ''%'')
      else Inr ''0.00%'')"
  by (simp add: percent_of_def py_truediv_def)

lemma percent_of_zero_iff: "percent_of a b = Inr ''0.00%'' \<longleftrightarrow> b = 0"
  using str_float_not_000 by (auto simp: percent_of_ok)

lemma and_then_Inr: "and_then (Inr x) f = f x"
  by (simp add: and_then_def)

lemma sys_update_cache_shape:
  assumes "sys_cpu_percent sp \<noteq> []"
  shows "\<exists>fc'. sys_update_cache sp fc = Inr fc' \<and>
     fc' ''CPU%'' = Some (py_str (py_round2 (PyFloat
        (sum_list (sys_cpu_percent sp) / of_nat (length (sys_cpu_percent sp))))) @ ''%'') \<and>
     Inr (the (fc' ''VM_PERCENT'')) = percent_of (fst (vm_info sp)) (fst (snd (vm_info sp))) \<and>
     Inr (the (fc' ''SWAP_PERCENT'')) = percent_of (fst (swap_info sp)) (snd (swap_info sp)) \<and>
     fc' ''VM_PERCENT'' \<noteq> None \<and> fc' ''SWAP_PERCENT'' \<noteq> None"
proof -
  obtain m0 m1 m2 m3 where vm: "vm_info sp = (m0, m1, m2, m3)" by (cases "vm_info sp")
  obtain s0 s1 where sw: "swap_info sp = (s0, s1)" by (cases "swap_info sp")
  obtain h0 h1 h2 h3 h4 h5 where hr:
    "to_human_readable m0 1024 = Inr h0" "to_human_readable m1 1024 = Inr h1"
    "to_human_readable m2 1024 = Inr h2" "to_human_readable m3 1024 = Inr h3"
    "to_human_readable s0 1024 = Inr h4" "to_human_readable s1 1024 = Inr h5"
    using to_human_readable_1024_ok by metis
  obtain p1 where p1: "percent_of m0 m1 = Inr p1"
    by (cases "m1 = 0") (simp_all add: percent_of_ok)
  obtain p2 where p2: "percent_of s0 s1 = Inr p2"
    by (cases "s1 = 0") (simp_all add: percent_of_ok)
  from assms vm sw hr p1 p2 show ?thesis
    by (simp add: sys_update_cache_def py_mean_def and_then_Inr)
qed

lemma sys_update_cache_error:
  "sys_update_cache sp fc = Inl e \<Longrightarrow> e = StatisticsError \<and> sys_cpu_percent sp = []"
proof -
  assume h: "sys_update_cache sp fc = Inl e"
  show ?thesis
  proof (cases "sys_cpu_percent sp = []")
    case True
    with h show ?thesis
      by (simp add: sys_update_cache_def py_mean_def and_then_def split: prod.splits)
  next
    case False
    from sys_update_cache_shape [OF False, of fc] h show ?thesis by auto
  qed
qed

text \<open>
  C6: \<open>_update_cache\<close> of the system Dispatcher never raises \<open>ZeroDivisionError\<close>, nor does
  the computation of a ratio entry by itself; it returns whenever the list of CPU
  percentages is not empty; and in the cache it returns, \<open>VM_PERCENT\<close> is \<open>0.00%\<close> exactly
  when the memory total is 0 and \<open>SWAP_PERCENT\<close> is \<open>0.00%\<close> exactly when the swap total is
  0 (a computed ratio never prints as \<open>0.00\<close>: a zero ratio prints as \<open>0.0%\<close>).
\<close>

theorem sys_ratio_guard:
  "sys_update_cache sp fc \<noteq> Inl ZeroDivisionError \<and>
   percent_of a b \<noteq> Inl ZeroDivisionError \<and>
   (sys_cpu_percent sp \<noteq> [] \<longrightarrow> (\<exists>fc'. sys_update_cache sp fc = Inr fc')) \<and>
   (\<forall>fc'. sys_update_cache sp fc = Inr fc' \<longrightarrow>
      (fc' ''VM_PERCENT'' = Some ''0.00%'' \<longleftrightarrow> fst (snd (vm_info sp)) = 0) \<and>
      (fc' ''SWAP_PERCENT'' = Some ''0.00%'' \<longleftrightarrow> snd (swap_info sp) = 0))"
proof -
  have a: "sys_update_cache sp fc \<noteq> Inl ZeroDivisionError"
    using sys_update_cache_error [of sp fc ZeroDivisionError] by auto
  have b: "percent_of a b \<noteq> Inl ZeroDivisionError"
    by (simp add: percent_of_ok)
  have c: "sys_cpu_percent sp \<noteq> [] \<longrightarrow> (\<exists>fc'. sys_update_cache sp fc = Inr fc')"
    using sys_update_cache_shape [of sp fc] by blast
  have d: "(fc' ''VM_PERCENT'' = Some ''0.00%'' \<longleftrightarrow> fst (snd (vm_info sp)) = 0) \<and>
      (fc' ''SWAP_PERCENT'' = Some ''0.00%'' \<longleftrightarrow> snd (swap_info sp) = 0)"
    if h: "sys_update_cache sp fc = Inr fc'" for fc'
  proof -
    have ne: "sys_cpu_percent sp \<noteq> []"
    proof
      assume "sys_cpu_percent sp = []"
      then have "sys_update_cache sp fc = Inl StatisticsError"
        by (simp add: sys_update_cache_def py_mean_def and_then_def split: prod.splits)
      with h show False by simp
    qed
    from sys_update_cache_shape [OF ne, of fc] h obtain v s where
      v: "fc' ''VM_PERCENT'' = Some v" "percent_of (fst (vm_info sp)) (fst (snd (vm_info sp))) = Inr v"
      and s: "fc' ''SWAP_PERCENT'' = Some s" "percent_of (fst (swap_info sp)) (snd (swap_info sp)) = Inr s"
      by auto
    from v s percent_of_zero_iff [of "fst (vm_info sp)" "fst (snd (vm_info sp))"]
      percent_of_zero_iff [of "fst (swap_info sp)" "snd (swap_info sp)"]
    show ?thesis by auto
  qed
  from a b c d show ?thesis by blast
qed

text \<open>
  A run of C6's theorem: with a memory total of 2 and a swap total of 0 the cache is
  returned, \<open>SWAP_PERCENT\<close> is \<open>0.00%\<close> and \<open>VM_PERCENT\<close> is not.
\<close>

theorem sys_ratio_guard_witness:
  "\<exists>fc'. sys_update_cache sys_probe_example sys_setup_cache = Inr fc' \<and>
     fc' ''SWAP_PERCENT'' = Some ''0.00%'' \<and> fc' ''VM_PERCENT'' \<noteq> Some ''0.00%'' \<and>
     fst (snd (vm_info sys_probe_example)) = 2 \<and> snd (swap_info sys_probe_example) = 0"
proof -
  have ne: "sys_cpu_percent sys_probe_example \<noteq> []"
    and vm: "fst (snd (vm_info sys_probe_example)) = 2"
    and sw: "snd (swap_info sys_probe_example) = 0"
    by (simp_all add: sys_probe_example_def)
  from sys_ratio_guard [where sp = sys_probe_example and fc = sys_setup_cache] ne
  obtain fc' where fc': "sys_update_cache sys_probe_example sys_setup_cache = Inr fc'"
    by blast
  with sys_ratio_guard [where sp = sys_probe_example and fc = sys_setup_cache] vm sw
  have "fc' ''SWAP_PERCENT'' = Some ''0.00%''" "fc' ''VM_PERCENT'' \<noteq> Some ''0.00%''"
    by auto
  with fc' vm sw show ?thesis by blast
qed

section \<open>Percentages in the Frontend Caches\<close>

lemma frac_digits_two:
  fixes r :: rat
  assumes "0 \<le> r" "r < 1" "r * 100 = of_int m"
  shows "length (frac_digits (Suc (Suc k)) r) \<le> 2"
proof (cases "r = 0")
  case True
  then show ?thesis by simp
next
  case r0: False
  define r1 where "r1 = r * 10 - of_int \<lfloor>r * 10\<rfloor>"
  have s1: "frac_digits (Suc (Suc k)) r = digit_char (nat \<lfloor>r * 10\<rfloor>) # frac_digits (Suc k) r1"
    using r0 by (simp add: r1_def)
  show ?thesis
  proof (cases "r1 = 0")
    case True
    with s1 show ?thesis by simp
  next
    case r10: False
    have "r1 * 10 = r * 100 - of_int (10 * \<lfloor>r * 10\<rfloor>)"
      by (simp add: r1_def algebra_simps)
    also have "\<dots> = of_int (m - 10 * \<lfloor>r * 10\<rfloor>)"
      using assms(3) by simp
    finally have i: "r1 * 10 = of_int (m - 10 * \<lfloor>r * 10\<rfloor>)" .
    have "r1 * 10 - of_int \<lfloor>r1 * 10\<rfloor> = 0"
      unfolding i by simp
    then have "frac_digits (Suc k) r1 = [digit_char (nat \<lfloor>r1 * 10\<rfloor>)]"
      using r10 by (simp add: frac_digits_zero)
    with s1 show ?thesis by simp
  qed
qed

lemma frac_part_round2:
  "length (frac_part (of_int n / 100)) = 1 \<or> length (frac_part (of_int n / 100)) = 2"
proof -
  define q :: rat where "q = of_int n / 100"
  define r where "r = \<bar>q\<bar> - of_int \<lfloor>\<bar>q\<bar>\<rfloor>"
  have r: "0 \<le> r" "r < 1" unfolding r_def by linarith+
  have "\<bar>q\<bar> * 100 = of_int \<bar>n\<bar>" by (simp add: q_def abs_if)
  then have "r * 100 = of_int (\<bar>n\<bar> - 100 * \<lfloor>\<bar>q\<bar>\<rfloor>)"
    by (simp add: r_def algebra_simps)
  from frac_digits_two [OF r this, of 15]
  have le: "length (frac_digits 17 r) \<le> 2" by (simp add: eval_nat_numeral)
  have "length (frac_part q) = 1 \<or> length (frac_part q) = 2"
  proof (cases "frac_digits 17 r = []")
    case True
    then show ?thesis by (simp add: frac_part_def r_def)
  next
    case False
    then have "length (frac_digits 17 r) \<noteq> 0" by simp
    with le have "length (frac_digits 17 r) = 1 \<or> length (frac_digits 17 r) = 2" by linarith
    with False show ?thesis by (simp add: frac_part_def r_def)
  qed
  then show ?thesis by (simp only: q_def)
qed

lemma frac_part_digits: "\<forall>c \<in> set (frac_part q). is_digit c"
  using frac_digits_digits [of 17 "\<bar>q\<bar> - of_int \<lfloor>\<bar>q\<bar>\<rfloor>"]
  by (simp add: frac_part_def Let_def is_digit_def)

lemma percent_format_body:
  assumes ip: "\<forall>c \<in> set ip. is_digit c" "ip \<noteq> []"
    and fp: "\<forall>c \<in> set fp. is_digit c" "length fp = 1 \<or> length fp = 2"
  shows "takeWhile is_digit (ip @ ''.'' @ fp @ ''%'') = ip"
    and "dropWhile is_digit (ip @ ''.'' @ fp @ ''%'') = CHR ''.'' # fp @ ''%''"
    and "takeWhile is_digit (fp @ ''%'') = fp"
    and "dropWhile is_digit (fp @ ''%'') = ''%''"
  using ip fp by (simp_all add: takeWhile_append2 dropWhile_append2 dot_not_digit)

lemma percent_format_intro:
  assumes ip: "\<forall>c \<in> set ip. is_digit c" "ip \<noteq> []"
    and fp: "\<forall>c \<in> set fp. is_digit c" "length fp = 1 \<or> length fp = 2"
    and sg: "sg = [] \<or> sg = ''-''"
  shows "percent_format (sg @ ip @ ''.'' @ fp @ ''%'')"
proof -
  note b = percent_format_body [OF ip fp]
  from sg show ?thesis
  proof
    assume "sg = ''-''"
    with b ip(2) fp(2) show ?thesis by (simp add: percent_format_def)
  next
    assume e: "sg = []"
    from ip obtain a ip' where c: "ip = a # ip'" and a: "is_digit a"
      by (cases ip) auto
    from a have "a \<noteq> CHR ''-''" using dot_not_digit by auto
    with e c b ip(2) fp(2) show ?thesis by (simp add: percent_format_def)
  qed
qed

lemma percent_format_round2: "percent_format (py_str (py_round2 (PyFloat x)) @ ''%'')"
proof -
  define n where "n = round_half_even (x * 100)"
  have "percent_format ((if of_int n / (100::rat) < 0 then ''-'' else [])
     @ str_nat (nat \<lfloor>\<bar>of_int n / (100::rat)\<bar>\<rfloor>) @ ''.'' @ frac_part (of_int n / 100) @ ''%'')"
    by (rule percent_format_intro
        [OF str_nat_digits str_nat_nonempty frac_part_digits frac_part_round2]) simp
  then show ?thesis by (simp add: str_float_def n_def)
qed

lemma percent_format_literal: "percent_format ''0.00%''"
  by code_simp

lemma percent_of_format: "\<exists>s. percent_of a b = Inr s \<and> percent_format s"
proof (cases "b = 0")
  case True
  then have "percent_of a b = Inr ''0.00%''" by (simp add: percent_of_ok)
  with percent_format_literal show ?thesis by blast
next
  case False
  then have "percent_of a b = Inr (py_str (py_round2 (PyFloat (of_int a / of_int b * 100))) @ ''%'')"
    by (simp only: percent_of_ok if_True not_False_eq_True)
  with percent_format_round2 show ?thesis by blast
qed

lemma sys_update_cache_Inr_nonempty:
  "sys_update_cache sp fc = Inr fc' \<Longrightarrow> sys_cpu_percent sp \<noteq> []"
proof
  assume h: "sys_update_cache sp fc = Inr fc'" and "sys_cpu_percent sp = []"
  then have "sys_update_cache sp fc = Inl StatisticsError"
    by (simp add: sys_update_cache_def py_mean_def and_then_def split: prod.splits)
  with h show False by simp
qed

text \<open>
  C8, as the code has it: each of the three percentage entries that the system Dispatcher's
  \<open>_update_cache\<close> stores (\<open>CPU%\<close>, \<open>VM_PERCENT\<close>, \<open>SWAP_PERCENT\<close>) is a decimal number
  with one or two digits after the point followed by \<open>%\<close>: the value rounded to two
  decimal places and printed by \<open>str\<close>, which drops a trailing zero (\<open>50.0%\<close>), or the
  literal \<open>0.00%\<close>. The \<open>CPU%\<close> entry of a process Dispatcher is not covered.
\<close>

theorem sys_percent_entries_format:
  assumes "sys_update_cache sp fc = Inr fc'"
  shows "(\<exists>s. fc' ''CPU%'' = Some s \<and> percent_format s) \<and>
         (\<exists>s. fc' ''VM_PERCENT'' = Some s \<and> percent_format s) \<and>
         (\<exists>s. fc' ''SWAP_PERCENT'' = Some s \<and> percent_format s)"
proof -
  from assms have ne: "sys_cpu_percent sp \<noteq> []"
    by (rule sys_update_cache_Inr_nonempty)
  from sys_update_cache_shape [OF ne, of fc] assms
  obtain v s where
      c: "fc' ''CPU%'' = Some (py_str (py_round2 (PyFloat
        (sum_list (sys_cpu_percent sp) / of_nat (length (sys_cpu_percent sp))))) @ ''%'')"
      and v: "fc' ''VM_PERCENT'' = Some v" "percent_of (fst (vm_info sp)) (fst (snd (vm_info sp))) = Inr v"
      and s: "fc' ''SWAP_PERCENT'' = Some s" "percent_of (fst (swap_info sp)) (snd (swap_info sp)) = Inr s"
    by auto
  from v(2) percent_of_format [of "fst (vm_info sp)" "fst (snd (vm_info sp))"]
  have pv: "percent_format v" by auto
  from s(2) percent_of_format [of "fst (swap_info sp)" "snd (swap_info sp)"]
  have ps: "percent_format s" by auto
  from c percent_format_round2 have pc: "\<exists>s. fc' ''CPU%'' = Some s \<and> percent_format s" by blast
  from pc v(1) s(1) pv ps show ?thesis by blast
qed

text \<open>
  A run of C8's theorem: a mean CPU load of 31.25, a memory ratio of one half and a swap
  total of 0 give the entries \<open>31.25%\<close>, \<open>50.0%\<close> and \<open>0.00%\<close>.
\<close>

theorem sys_percent_entries_format_witness:
  "\<exists>fc'. sys_update_cache sys_probe_example sys_setup_cache = Inr fc' \<and>
     fc' ''CPU%'' = Some ''31.25%'' \<and> fc' ''VM_PERCENT'' = Some ''50.0%'' \<and>
     fc' ''SWAP_PERCENT'' = Some ''0.00%'' \<and>
     percent_format ''31.25%'' \<and> percent_format ''50.0%'' \<and> percent_format ''0.00%''"
proof -
  have e: "(case sys_update_cache sys_probe_example sys_setup_cache of
      Inl e \<Rightarrow> False
    | Inr fc' \<Rightarrow> fc' ''CPU%'' = Some ''31.25%'' \<and> fc' ''VM_PERCENT'' = Some ''50.0%'' \<and>
        fc' ''SWAP_PERCENT'' = Some ''0.00%'')"
    by code_simp
  then obtain fc' where fc': "sys_update_cache sys_probe_example sys_setup_cache = Inr fc'"
    and vals: "fc' ''CPU%'' = Some ''31.25%''" "fc' ''VM_PERCENT'' = Some ''50.0%''"
      "fc' ''SWAP_PERCENT'' = Some ''0.00%''"
    by (auto split: sum.splits)
  from sys_percent_entries_format [OF fc'] vals
  have "percent_format ''31.25%''" "percent_format ''50.0%''" "percent_format ''0.00%''"
    by (simp_all only: option.inject ex_simps simp_thms)
  with fc' vals show ?thesis by blast
qed

text \<open>
  C8 as the spec states it fails for the \<open>CPU%\<close> entry of a process Dispatcher, which is
  \<open>str\<close> of the tracer's cached value, neither rounded nor followed by \<open>%\<close>: the value
  12.345 is stored as \<open>12.345\<close>.
\<close>

theorem process_cpu_percent_counterexample:
  "(case update_cache (probe_example\<lparr>cached_cpu_percent := PyFloat (12345 / 1000)\<rparr>) parent_example of
      Inl e \<Rightarrow> False
    | Inr d \<Rightarrow> frontend_cache d ''CPU%'' = Some ''12.345'' \<and> \<not> percent_format ''12.345'' \<and>
        last ''12.345'' \<noteq> CHR ''%'')"
  by code_simp


end
